theory Spec2Isabelle
  imports Complex_Main
begin

section \<open>SecureBank: ledger records, transaction limits and references\<close>

text \<open>
  A shallow embedding of the model methods of the SecureBank Django project:
  \<^item> \<^verbatim>\<open>accounts/models.py\<close>: \<^verbatim>\<open>BankAccount\<close> (\<^verbatim>\<open>is_active\<close>, \<^verbatim>\<open>can_withdraw\<close>,
    \<^verbatim>\<open>generate_account_number\<close>, \<^verbatim>\<open>save\<close>);
  \<^item> \<^verbatim>\<open>transactions/models.py\<close>: \<^verbatim>\<open>Transaction\<close> (\<^verbatim>\<open>save\<close>, \<^verbatim>\<open>generate_reference\<close>,
    \<^verbatim>\<open>can_be_cancelled\<close>, \<^verbatim>\<open>can_be_reversed\<close>) and \<^verbatim>\<open>TransactionLimit.check_daily_limit\<close>;
  \<^item> the \<^verbatim>\<open>generate_reference\<close> methods of the crypto, gift card, payment and service
    models, which differ from the one of \<^verbatim>\<open>Transaction\<close> in the prefix and the table only.

  Conventions. A \<^verbatim>\<open>Decimal\<close> is a rational number: the sums of the source are exact at the
  widths of its fields (15 digits in a context of 28). A \<^verbatim>\<open>CharField\<close> with choices is
  a string, compared as the source compares it. A database table is the list of its rows.
  The clock and the random number generator are inputs of the functions that read them.
\<close>

type_synonym decimal = rat
type_synonym user_id = nat

subsection \<open>Date and time\<close>

text \<open>
  A \<^verbatim>\<open>datetime\<close> is seen through the two observations the source makes of it: the calendar
  date (\<^verbatim>\<open>.date()\<close> and the \<^verbatim>\<open>__date\<close> lookup), as a day number, and the integer
  \<^verbatim>\<open>int(dt.timestamp() * 1000)\<close>, the milliseconds since the epoch.
\<close>

record datetime =
  date :: int
  timestamp_ms :: int

subsection \<open>Bank accounts (\<^verbatim>\<open>accounts/models.py\<close>)\<close>

record BankAccount =
  user :: user_id
  account_number :: string
  balance :: decimal
  available_balance :: decimal
  frozen_balance :: decimal
  status :: string
  daily_limit :: decimal
  single_transaction_limit :: decimal

text \<open>The property \<^verbatim>\<open>is_active\<close>: \<^verbatim>\<open>self.status == 'ACTIVE'\<close>.\<close>

definition is_active :: "BankAccount \<Rightarrow> bool" where
  "is_active self = (BankAccount.status self = ''ACTIVE'')"

text \<open>
  \<^verbatim>\<open>can_withdraw\<close>: \<^verbatim>\<open>self.is_active and amount <= self.available_balance and
  amount <= self.single_transaction_limit\<close>. The three operands are booleans, so Python's
  \<^verbatim>\<open>and\<close> is the conjunction.
\<close>

definition can_withdraw :: "BankAccount \<Rightarrow> decimal \<Rightarrow> bool" where
  "can_withdraw self amount' =
     (is_active self \<and>
      amount' \<le> available_balance self \<and>
      amount' \<le> single_transaction_limit self)"

subsection \<open>Transactions (\<^verbatim>\<open>transactions/models.py\<close>)\<close>

record Transaction =
  reference :: string
  transaction_type :: string
  source_account :: "BankAccount option"
  destination_account :: "BankAccount option"
  amount :: decimal
  fee :: decimal
  tax :: decimal
  total_amount :: decimal
  status :: string
  created_at :: "datetime option"
  completed_at :: "datetime option"

text \<open>\<^verbatim>\<open>can_be_cancelled\<close>: \<^verbatim>\<open>self.status in ["PENDING", "PROCESSING"]\<close>.\<close>

definition can_be_cancelled :: "Transaction \<Rightarrow> bool" where
  "can_be_cancelled self = (Transaction.status self \<in> set [''PENDING'', ''PROCESSING''])"

text \<open>\<^verbatim>\<open>can_be_reversed\<close>: \<^verbatim>\<open>self.status == "COMPLETED"\<close>.\<close>

definition can_be_reversed :: "Transaction \<Rightarrow> bool" where
  "can_be_reversed self = (Transaction.status self = ''COMPLETED'')"

subsection \<open>The queries of the limit check\<close>

text \<open>
  The lookup \<^verbatim>\<open>source_account__user\<close> follows the nullable foreign key: a transaction with no
  source account matches no user. \<^verbatim>\<open>created_at__date\<close> is the date of \<^verbatim>\<open>created_at\<close>.
\<close>

definition source_account__user :: "Transaction \<Rightarrow> user_id option" where
  "source_account__user t = map_option BankAccount.user (source_account t)"

definition created_at__date :: "Transaction \<Rightarrow> int option" where
  "created_at__date t = map_option date (created_at t)"

text \<open>
  \<^verbatim>\<open>.aggregate(total=Sum("amount"))["total"]\<close> is \<^verbatim>\<open>None\<close> on no row and the sum of the
  column otherwise; \<^verbatim>\<open>x or Decimal("0.00")\<close> replaces \<^verbatim>\<open>None\<close>, and a zero sum, by zero.
\<close>

definition aggregate_Sum_amount :: "Transaction list \<Rightarrow> decimal option" where
  "aggregate_Sum_amount rows =
     (if rows = [] then None else Some (sum_list (map amount rows)))"

definition or_zero :: "decimal option \<Rightarrow> decimal" where
  "or_zero x = (case x of None \<Rightarrow> 0 | Some v \<Rightarrow> if v = 0 then 0 else v)"

subsection \<open>Transaction limits (\<^verbatim>\<open>transactions/models.py\<close>)\<close>

record TransactionLimit =
  user :: user_id
  tier :: string
  daily_transfer_limit :: decimal
  daily_withdrawal_limit :: decimal
  daily_crypto_limit :: decimal
  single_transfer_limit :: decimal
  single_withdrawal_limit :: decimal
  single_crypto_limit :: decimal
  monthly_transfer_limit :: decimal
  monthly_withdrawal_limit :: decimal

text \<open>The field defaults of \<^verbatim>\<open>TransactionLimit\<close>, for a given user.\<close>

definition default_limits :: "user_id \<Rightarrow> TransactionLimit" where
  "default_limits u =
     \<lparr> user = u, tier = ''BASIC'',
       daily_transfer_limit = 100000, daily_withdrawal_limit = 50000,
       daily_crypto_limit = 200000,
       single_transfer_limit = 50000, single_withdrawal_limit = 20000,
       single_crypto_limit = 100000,
       monthly_transfer_limit = 2000000, monthly_withdrawal_limit = 1000000 \<rparr>"

text \<open>
  \<^verbatim>\<open>check_daily_limit(self, transaction_type, amount)\<close>. \<open>objects\<close> is the table
  \<^verbatim>\<open>Transaction.objects\<close> and \<open>now\<close> the value of \<^verbatim>\<open>timezone.now()\<close>. The three branches
  and the final \<^verbatim>\<open>return True\<close> are those of the source, in its order.
\<close>

definition check_daily_limit ::
  "Transaction list \<Rightarrow> datetime \<Rightarrow> TransactionLimit \<Rightarrow> string \<Rightarrow> decimal \<Rightarrow> bool" where
  "check_daily_limit objects now self transaction_type' amount' =
     (let today = date now in
      if transaction_type' \<in> set [''TRANSFER'', ''PAYMENT''] then
        (let daily_total = or_zero (aggregate_Sum_amount (filter (\<lambda>t.
                source_account__user t = Some (TransactionLimit.user self) \<and>
                transaction_type t \<in> set [''TRANSFER'', ''PAYMENT''] \<and>
                Transaction.status t = ''COMPLETED'' \<and>
                created_at__date t = Some today) objects))
         in daily_total + amount' \<le> daily_transfer_limit self)
      else if transaction_type' = ''WITHDRAWAL'' then
        (let daily_total = or_zero (aggregate_Sum_amount (filter (\<lambda>t.
                source_account__user t = Some (TransactionLimit.user self) \<and>
                transaction_type t = ''WITHDRAWAL'' \<and>
                Transaction.status t = ''COMPLETED'' \<and>
                created_at__date t = Some today) objects))
         in daily_total + amount' \<le> daily_withdrawal_limit self)
      else if transaction_type' \<in> set [''CRYPTO_BUY'', ''CRYPTO_SELL''] then
        (let daily_total = or_zero (aggregate_Sum_amount (filter (\<lambda>t.
                source_account__user t = Some (TransactionLimit.user self) \<and>
                transaction_type t \<in> set [''CRYPTO_BUY'', ''CRYPTO_SELL''] \<and>
                Transaction.status t = ''COMPLETED'' \<and>
                created_at__date t = Some today) objects))
         in daily_total + amount' \<le> daily_crypto_limit self)
      else True)"

subsection \<open>The limit check as the specification words it\<close>

text \<open>
  The specification speaks of three category sets, of the running total of the day in a
  category and of the daily ceiling of the tier for it. These definitions follow its words;
  the theorems below compare them with \<^const>\<open>check_daily_limit\<close>.
\<close>

datatype category = Transfers | Withdrawals | Crypto

definition category_types :: "category \<Rightarrow> string list" where
  "category_types c =
     (case c of
        Transfers \<Rightarrow> [''TRANSFER'', ''PAYMENT'']
      | Withdrawals \<Rightarrow> [''WITHDRAWAL'']
      | Crypto \<Rightarrow> [''CRYPTO_BUY'', ''CRYPTO_SELL''])"

definition daily_ceiling :: "TransactionLimit \<Rightarrow> category \<Rightarrow> decimal" where
  "daily_ceiling limits c =
     (case c of
        Transfers \<Rightarrow> daily_transfer_limit limits
      | Withdrawals \<Rightarrow> daily_withdrawal_limit limits
      | Crypto \<Rightarrow> daily_crypto_limit limits)"

definition counted_today :: "user_id \<Rightarrow> category \<Rightarrow> int \<Rightarrow> Transaction \<Rightarrow> bool" where
  "counted_today u c today t =
     (source_account__user t = Some u \<and>
      transaction_type t \<in> set (category_types c) \<and>
      Transaction.status t = ''COMPLETED'' \<and>
      created_at__date t = Some today)"

definition running_daily_total ::
  "Transaction list \<Rightarrow> user_id \<Rightarrow> category \<Rightarrow> int \<Rightarrow> decimal" where
  "running_daily_total objects u c today =
     sum_list (map amount (filter (counted_today u c today) objects))"

subsection \<open>Python values and the random number generator\<close>

text \<open>The exception that the methods below can raise.\<close>

datatype py_error = TypeError

text \<open>
  \<^verbatim>\<open>str\<close> of an \<^verbatim>\<open>int\<close>: its decimal digits, after a minus sign when it is negative.
\<close>

fun str_nat :: "nat \<Rightarrow> string" where
  "str_nat n =
     (if n < 10 then [''0123456789'' ! n]
      else str_nat (n div 10) @ [''0123456789'' ! (n mod 10)])"

declare str_nat.simps [simp del]

definition str_int :: "int \<Rightarrow> string" where
  "str_int i = (if i < 0 then CHR ''-'' # str_nat (nat (- i)) else str_nat (nat i))"

text \<open>
  Subscripting an \<^verbatim>\<open>int\<close>, as in \<^verbatim>\<open>int(x)[:10]\<close>: an \<^verbatim>\<open>int\<close> has no \<^verbatim>\<open>__getitem__\<close>, and Python
  raises \<^verbatim>\<open>TypeError\<close> whatever the integer and the slice are.
\<close>

definition subscript_int :: "int \<Rightarrow> nat \<Rightarrow> py_error + int" where
  "subscript_int x stop = Inl TypeError"

text \<open>
  The random number generator and \<^verbatim>\<open>uuid.uuid4()\<close> are oracles indexed by the iteration of
  the loop that reads them: \<open>choices g i j\<close> is the \<open>j\<close>-th index drawn by the call of
  \<^verbatim>\<open>random.choices\<close> in iteration \<open>i\<close>, \<open>randint g i\<close> the number drawn by \<^verbatim>\<open>random.randint\<close>
  and \<open>uuid4_int g i\<close> the value of \<^verbatim>\<open>uuid.uuid4().int\<close> there.
\<close>

record rng =
  choices :: "nat \<Rightarrow> nat \<Rightarrow> nat"
  randint :: "nat \<Rightarrow> nat"
  uuid4_int :: "nat \<Rightarrow> int"

definition ascii_uppercase :: string where
  "ascii_uppercase = ''ABCDEFGHIJKLMNOPQRSTUVWXYZ''"

definition digits :: string where
  "digits = ''0123456789''"

text \<open>
  \<^verbatim>\<open>"".join(random.choices(population, k=k))\<close>: \<open>k\<close> elements of the population, drawn
  with replacement; every drawn index is reduced to the range of the population.
\<close>

definition random_choices :: "(nat \<Rightarrow> nat) \<Rightarrow> string \<Rightarrow> nat \<Rightarrow> string" where
  "random_choices draw population k =
     map (\<lambda>j. population ! (draw j mod length population)) [0..<k]"

text \<open>\<^verbatim>\<open>random.randint(a, b)\<close>: an integer of the closed range from \<open>a\<close> to \<open>b\<close>.\<close>

definition random_randint :: "nat \<Rightarrow> int \<Rightarrow> int \<Rightarrow> int" where
  "random_randint draw a b = a + int draw mod (b - a + 1)"

subsection \<open>Reference generation\<close>

text \<open>
  The eight \<^verbatim>\<open>generate_reference\<close> methods of the project have the same body up to the
  prefix and the table that the existence query reads: \<^verbatim>\<open>Transaction\<close> in
  \<^verbatim>\<open>transactions/models.py\<close>, \<^verbatim>\<open>CryptoTransaction\<close> in \<^verbatim>\<open>crypto/models.py\<close>,
  \<^verbatim>\<open>GiftCardTransaction\<close> in \<^verbatim>\<open>giftcards/models.py\<close>, \<^verbatim>\<open>PaymentTransaction\<close> and \<^verbatim>\<open>Refund\<close> in
  \<^verbatim>\<open>payments/models.py\<close>, \<^verbatim>\<open>AirtimeTopUp\<close>, \<^verbatim>\<open>BillPayment\<close> and \<^verbatim>\<open>SchoolFeePayment\<close> in
  \<^verbatim>\<open>services/models.py\<close>. The model is a parameter of the one definition.
\<close>

datatype ref_model =
    Transaction_model | CryptoTransaction_model | GiftCardTransaction_model
  | PaymentTransaction_model | Refund_model
  | AirtimeTopUp_model | BillPayment_model | SchoolFeePayment_model

text \<open>The line \<^verbatim>\<open>prefix = "..."\<close> of each of the eight methods.\<close>

fun ref_prefix :: "ref_model \<Rightarrow> string" where
  "ref_prefix Transaction_model = ''TXN''"
| "ref_prefix CryptoTransaction_model = ''CRX''"
| "ref_prefix GiftCardTransaction_model = ''GFT''"
| "ref_prefix PaymentTransaction_model = ''PAY''"
| "ref_prefix Refund_model = ''REF''"
| "ref_prefix AirtimeTopUp_model = ''AIR''"
| "ref_prefix BillPayment_model = ''BIL''"
| "ref_prefix SchoolFeePayment_model = ''SCH''"

text \<open>
  The timestamp component: \<^verbatim>\<open>str(int(self.created_at.timestamp() * 1000)) if
  self.created_at else str(int(uuid.uuid4().int)[:10])\<close>. In the second branch the slice
  applies to the result of \<^verbatim>\<open>int(...)\<close>, before \<^verbatim>\<open>str\<close> is called.
\<close>

definition reference_timestamp :: "datetime option \<Rightarrow> int \<Rightarrow> py_error + string" where
  "reference_timestamp created uuid =
     (case created of
        Some dt \<Rightarrow> Inr (str_int (timestamp_ms dt))
      | None \<Rightarrow>
          (case subscript_int uuid 10 of
             Inl e \<Rightarrow> Inl e
           | Inr v \<Rightarrow> Inr (str_int v)))"

text \<open>The random suffix of iteration \<open>i\<close>: eight characters of A-Z and 0-9.\<close>

definition random_str :: "rng \<Rightarrow> nat \<Rightarrow> string" where
  "random_str g i = random_choices (choices g i) (ascii_uppercase @ digits) 8"

text \<open>
  The \<^verbatim>\<open>while True\<close> loop of \<^verbatim>\<open>generate_reference\<close>, from iteration \<open>i\<close> on. \<open>refs\<close> is the
  \<^verbatim>\<open>reference\<close> column of the table of the model. The result is \<open>None\<close> when the loop
  never ends, \<open>Some (Inl e)\<close> when it raises and \<open>Some (Inr r)\<close> when it returns \<open>r\<close>.
\<close>

partial_function (option) generate_reference_loop ::
  "rng \<Rightarrow> string list \<Rightarrow> ref_model \<Rightarrow> datetime option \<Rightarrow> nat \<Rightarrow> (py_error + string) option" where
  "generate_reference_loop g refs m created i =
     (case reference_timestamp created (uuid4_int g i) of
        Inl e \<Rightarrow> Some (Inl e)
      | Inr timestamp \<Rightarrow>
          (let reference' = ref_prefix m @ timestamp @ random_str g i
           in if reference' \<notin> set refs then Some (Inr reference')
              else generate_reference_loop g refs m created (i + 1)))"

declare generate_reference_loop.simps [code]

definition generate_reference ::
  "rng \<Rightarrow> string list \<Rightarrow> ref_model \<Rightarrow> datetime option \<Rightarrow> (py_error + string) option" where
  "generate_reference g refs m created = generate_reference_loop g refs m created 0"


text \<open>
  \<^verbatim>\<open>Transaction.save\<close>: a reference is generated when the transaction has none, then
  \<^verbatim>\<open>total_amount\<close> is assigned, then the object goes to \<^verbatim>\<open>super().save()\<close>. The result is the
  object as it is handed to the framework, which writes its fields (and sets \<^verbatim>\<open>created_at\<close>
  of a new row only then).
\<close>

definition Transaction_save ::
  "rng \<Rightarrow> string list \<Rightarrow> Transaction \<Rightarrow> (py_error + Transaction) option" where
  "Transaction_save g refs self =
     (case (if reference self = [] then generate_reference g refs Transaction_model (created_at self)
            else Some (Inr (reference self))) of
        None \<Rightarrow> None
      | Some (Inl e) \<Rightarrow> Some (Inl e)
      | Some (Inr r) \<Rightarrow>
          Some (Inr (self\<lparr> reference := r,
                           total_amount := amount self + fee self + tax self \<rparr>)))"

subsection \<open>Saving a bank account\<close>

text \<open>
  \<^verbatim>\<open>generate_account_number\<close>: \<^verbatim>\<open>"209"\<close> and a random integer of ten digits, drawn again
  while an account has the number. \<open>numbers\<close> is the \<^verbatim>\<open>account_number\<close> column of the table.
\<close>

partial_function (option) generate_account_number_loop ::
  "rng \<Rightarrow> string list \<Rightarrow> nat \<Rightarrow> string option" where
  "generate_account_number_loop g numbers i =
     (let number = ''209'' @ str_int (random_randint (randint g i) 1000000000 9999999999)
      in if number \<notin> set numbers then Some number
         else generate_account_number_loop g numbers (i + 1))"

declare generate_account_number_loop.simps [code]

definition generate_account_number :: "rng \<Rightarrow> string list \<Rightarrow> string option" where
  "generate_account_number g numbers = generate_account_number_loop g numbers 0"

text \<open>
  \<^verbatim>\<open>BankAccount.save\<close>: an account number is generated when the account has none, then the
  object goes to \<^verbatim>\<open>super().save()\<close>. No field is validated or recomputed.
\<close>

definition BankAccount_save :: "rng \<Rightarrow> string list \<Rightarrow> BankAccount \<Rightarrow> BankAccount option" where
  "BankAccount_save g numbers self =
     (case (if account_number self = [] then generate_account_number g numbers
            else Some (account_number self)) of
        None \<Rightarrow> None
      | Some n \<Rightarrow> Some (self\<lparr> account_number := n \<rparr>))"

text \<open>
  A new account with the defaults of the fields: the three balances are 0.00, the status
  is ACTIVE, the limits are 500,000 a day and 100,000 a transaction, and the number is
  empty until the first \<^verbatim>\<open>save\<close>.
\<close>

definition new_account :: "user_id \<Rightarrow> BankAccount" where
  "new_account u =
     \<lparr> BankAccount.user = u, account_number = [],
       balance = 0, available_balance = 0, frozen_balance = 0,
       BankAccount.status = ''ACTIVE'', daily_limit = 500000,
       single_transaction_limit = 100000 \<rparr>"

text \<open>The invariant that the specification states of the three balances.\<close>

definition ledger_invariant :: "BankAccount \<Rightarrow> bool" where
  "ledger_invariant a =
     (balance a = available_balance a + frozen_balance a \<and> 0 \<le> available_balance a)"

subsection \<open>The ledger store and the lifecycle of the specification\<close>

text \<open>
  The source declares the balances, the statuses, the log table and the guards
  \<^verbatim>\<open>can_withdraw\<close>, \<^verbatim>\<open>can_be_cancelled\<close> and \<^verbatim>\<open>can_be_reversed\<close>, but none of its files defines
  an operation that reserves, commits or releases funds or that moves a transaction from
  one status to another (\<^verbatim>\<open>transactions/urls.py\<close> imports a module \<^verbatim>\<open>api_views\<close> that is not
  among them). The operations of this subsection follow sections 4.2 and 4.4 of the
  specification and use the guards of the source where it has them.
\<close>

text \<open>
  Modelled from the spec: the errors of section 7 that the operations below return.
\<close>

datatype engine_error =
  InsufficientFunds | AccountNotActive | InvalidStateTransition

text \<open>
  Modelled from the spec: a hold, the reservation that \<^verbatim>\<open>reserve\<close> returns (glossary: funds
  moved from the available to the frozen balance pending commit or release).
\<close>

record Hold =
  held :: decimal

text \<open>
  Modelled from the spec: \<^verbatim>\<open>reserve(account, amount)\<close> of section 4.2, with result
  \<^verbatim>\<open>Result<Hold, InsufficientFunds|AccountNotActive>\<close>. It checks that the status is ACTIVE,
  that the amount is at most the available balance and at most the single transaction
  limit (the check is \<^const>\<open>can_withdraw\<close> of the source), then moves the amount from
  \<^verbatim>\<open>available_balance\<close> into \<^verbatim>\<open>frozen_balance\<close> in one step.
\<close>

definition reserve :: "BankAccount \<Rightarrow> decimal \<Rightarrow> engine_error + (BankAccount \<times> Hold)" where
  "reserve a amt =
     (if can_withdraw a amt then
        Inr (a\<lparr> available_balance := available_balance a - amt,
                 frozen_balance := frozen_balance a + amt \<rparr>,
             \<lparr> held = amt \<rparr>)
      else if \<not> is_active a then Inl AccountNotActive
      else Inl InsufficientFunds)"

text \<open>
  Modelled from the spec: \<^verbatim>\<open>release(hold)\<close> of section 4.2, which reverses the reservation
  without touching \<^verbatim>\<open>balance\<close>.
\<close>

definition release :: "BankAccount \<Rightarrow> Hold \<Rightarrow> BankAccount" where
  "release a h =
     a\<lparr> available_balance := available_balance a + held h,
        frozen_balance := frozen_balance a - held h \<rparr>"

text \<open>
  Modelled from the spec: \<^verbatim>\<open>commit(hold)\<close> of section 4.2 for a debit, which moves the held
  amount out of both \<^verbatim>\<open>balance\<close> and \<^verbatim>\<open>frozen_balance\<close>.
\<close>

definition commit_debit :: "BankAccount \<Rightarrow> Hold \<Rightarrow> BankAccount" where
  "commit_debit a h =
     a\<lparr> balance := balance a - held h,
        frozen_balance := frozen_balance a - held h \<rparr>"

text \<open>
  Modelled from the spec: \<^verbatim>\<open>post(account, delta)\<close> of section 4.2, the credit that adds to
  \<^verbatim>\<open>balance\<close> and \<^verbatim>\<open>available_balance\<close> (a negative \<open>delta\<close> is the mirror debit of a
  reversal).
\<close>

definition post :: "BankAccount \<Rightarrow> decimal \<Rightarrow> BankAccount" where
  "post a delta =
     a\<lparr> balance := balance a + delta,
        available_balance := available_balance a + delta \<rparr>"

text \<open>
  A row of \<^verbatim>\<open>TransactionLog\<close> (\<^verbatim>\<open>transactions/models.py\<close>): the reference of the transaction,
  the action and the two statuses.
\<close>

record TransactionLog =
  log_transaction :: string
  action :: string
  old_status :: string
  new_status :: string

text \<open>
  Modelled from the spec: the state on which a lifecycle operation works, that is the
  transaction with its two accounts (the ledger rows it posts to), the hold that
  \<^verbatim>\<open>submit\<close> reserved on the source account, if any, and the log.
\<close>

record engine =
  txn :: Transaction
  hold :: "Hold option"
  logs :: "TransactionLog list"

text \<open>
  Modelled from the spec: the log row of a transition, one per transition, with the old
  and the new status (section 4.4).
\<close>

definition log_row :: "Transaction \<Rightarrow> string \<Rightarrow> string \<Rightarrow> TransactionLog" where
  "log_row t act new =
     \<lparr> log_transaction = reference t, action = act,
       old_status = Transaction.status t, new_status = new \<rparr>"

text \<open>
  Modelled from the spec: \<^verbatim>\<open>complete\<close> of section 4.4, PROCESSING to COMPLETED. It commits
  the hold on the source account, credits the destination account, stamps
  \<^verbatim>\<open>completed_at\<close> and emits a log row with action COMPLETED. From any other status it
  fails with \<^verbatim>\<open>InvalidStateTransition\<close> and changes nothing. The result is the error, if
  any, and the state after the call.
\<close>

definition complete_txn :: "datetime \<Rightarrow> engine \<Rightarrow> engine_error option \<times> engine" where
  "complete_txn now s =
     (let t = txn s in
      if Transaction.status t = ''PROCESSING'' then
        (None,
         s\<lparr> txn := t\<lparr> source_account :=
                        (case hold s of
                           None \<Rightarrow> source_account t
                         | Some h \<Rightarrow> map_option (\<lambda>a. commit_debit a h) (source_account t)),
                      destination_account :=
                        map_option (\<lambda>a. post a (amount t)) (destination_account t),
                      status := ''COMPLETED'',
                      completed_at := Some now \<rparr>,
            hold := None,
            logs := logs s @ [log_row t ''COMPLETED'' ''COMPLETED''] \<rparr>)
      else (Some InvalidStateTransition, s))"

text \<open>
  Modelled from the spec: \<^verbatim>\<open>cancel\<close> of section 4.4, allowed only from PENDING or
  PROCESSING (the guard is \<^const>\<open>can_be_cancelled\<close> of the source). It releases the hold, if
  any, and emits a log row with action CANCELLED.
\<close>

definition cancel :: "engine \<Rightarrow> engine_error option \<times> engine" where
  "cancel s =
     (let t = txn s in
      if can_be_cancelled t then
        (None,
         s\<lparr> txn := t\<lparr> source_account :=
                        (case hold s of
                           None \<Rightarrow> source_account t
                         | Some h \<Rightarrow> map_option (\<lambda>a. release a h) (source_account t)),
                      status := ''CANCELLED'' \<rparr>,
            hold := None,
            logs := logs s @ [log_row t ''CANCELLED'' ''CANCELLED''] \<rparr>)
      else (Some InvalidStateTransition, s))"

text \<open>
  Modelled from the spec: \<^verbatim>\<open>reverse\<close> of section 4.4, allowed only from COMPLETED (the guard
  is \<^const>\<open>can_be_reversed\<close> of the source). It credits the source account again, debits the
  destination account (the mirror posting) and emits a log row with action REVERSED.
\<close>

definition reverse :: "engine \<Rightarrow> engine_error option \<times> engine" where
  "reverse s =
     (let t = txn s in
      if can_be_reversed t then
        (None,
         s\<lparr> txn := t\<lparr> source_account :=
                        map_option (\<lambda>a. post a (amount t)) (source_account t),
                      destination_account :=
                        map_option (\<lambda>a. post a (- amount t)) (destination_account t),
                      status := ''REVERSED'' \<rparr>,
            logs := logs s @ [log_row t ''REVERSED'' ''REVERSED''] \<rparr>)
      else (Some InvalidStateTransition, s))"

subsection \<open>Example data\<close>

text \<open>
  Concrete rows on which the theorems are instantiated: an active account per user, and a
  table with two completed transfers of user 1 on day 19000 (50,000 and 30,000) among
  rows that the daily query of the transfer category must not count.
\<close>

definition example_now :: datetime where
  "example_now = \<lparr> date = 19000, timestamp_ms = 1641600000123 \<rparr>"

definition example_account :: "user_id \<Rightarrow> BankAccount" where
  "example_account u =
     \<lparr> BankAccount.user = u, account_number = ''2091234567890'',
       balance = 500000, available_balance = 500000, frozen_balance = 0,
       BankAccount.status = ''ACTIVE'', daily_limit = 500000, single_transaction_limit = 100000 \<rparr>"

definition example_txn :: "user_id \<Rightarrow> string \<Rightarrow> string \<Rightarrow> int \<Rightarrow> decimal \<Rightarrow> Transaction" where
  "example_txn u ty st day amt =
     \<lparr> reference = ''TXN1641600000000AAAAAAAA'', transaction_type = ty,
       source_account = Some (example_account u), destination_account = None,
       amount = amt, fee = 0, tax = 0, total_amount = amt, status = st,
       created_at = Some \<lparr> date = day, timestamp_ms = day * 86400000 \<rparr>,
       completed_at = None \<rparr>"

definition example_objects :: "Transaction list" where
  "example_objects =
     [ example_txn 1 ''TRANSFER'' ''COMPLETED'' 19000 50000,
       example_txn 1 ''PAYMENT'' ''COMPLETED'' 19000 30000,
       example_txn 1 ''TRANSFER'' ''PENDING'' 19000 40000,
       example_txn 2 ''TRANSFER'' ''COMPLETED'' 19000 70000,
       example_txn 1 ''TRANSFER'' ''COMPLETED'' 18999 60000,
       example_txn 1 ''WITHDRAWAL'' ''COMPLETED'' 19000 10000 ]"

text \<open>
  A generator whose first draw of \<^verbatim>\<open>random.choices\<close> is eight times index 0 (AAAAAAAA) and
  whose later draws are eight times index 27 (11111111), and a transaction of amount 1000,
  fee 50 and tax 20 whose \<^verbatim>\<open>total_amount\<close> holds an unrelated value.
\<close>

definition example_rng :: rng where
  "example_rng =
     \<lparr> choices = (\<lambda>i j. if i = 0 then 0 else 27),
       randint = (\<lambda>i. 234567890 + i),
       uuid4_int = (\<lambda>i. 123456789012345678901234567890) \<rparr>"

definition example_transfer :: Transaction where
  "example_transfer =
     \<lparr> reference = ''TXN1641600000123ZZZZZZZZ'', transaction_type = ''TRANSFER'',
       source_account = Some (example_account 1),
       destination_account = Some (example_account 2),
       amount = 1000, fee = 50, tax = 20, total_amount = 9999, status = ''PENDING'',
       created_at = Some example_now, completed_at = None \<rparr>"

text \<open>
  A table of references that holds the first candidate of \<^const>\<open>example_rng\<close>, an account
  whose balance is not the sum of its two parts, and a lifecycle state around
  \<^const>\<open>example_transfer\<close> with a status to choose.
\<close>

definition example_refs :: "string list" where
  "example_refs = [''TXN1641600000123AAAAAAAA'']"

definition example_unbalanced_account :: BankAccount where
  "example_unbalanced_account =
     \<lparr> BankAccount.user = 1, account_number = ''2091234567890'',
       balance = 100, available_balance = 0, frozen_balance = 0,
       BankAccount.status = ''ACTIVE'', daily_limit = 500000,
       single_transaction_limit = 100000 \<rparr>"

definition example_engine :: "string \<Rightarrow> engine" where
  "example_engine st =
     \<lparr> txn = example_transfer\<lparr> status := st \<rparr>, hold = Some \<lparr> held = 1000 \<rparr>, logs = [] \<rparr>"

section \<open>Properties\<close>

subsection \<open>Helper lemmas on the limit check\<close>

lemma or_zero_aggregate: "or_zero (aggregate_Sum_amount rows) = sum_list (map amount rows)"
  by (simp add: or_zero_def aggregate_Sum_amount_def)

lemma counted_today_fun:
  "counted_today u c today =
     (\<lambda>t. source_account__user t = Some u \<and> transaction_type t \<in> set (category_types c) \<and>
          Transaction.status t = ''COMPLETED'' \<and> created_at__date t = Some today)"
  by (rule ext) (simp only: counted_today_def)

lemma check_daily_limit_transfers:
  "ty \<in> set [''TRANSFER'', ''PAYMENT''] \<Longrightarrow>
   check_daily_limit objects now limits ty amt =
     (running_daily_total objects (TransactionLimit.user limits) Transfers (date now) + amt
        \<le> daily_transfer_limit limits)"
  by (simp add: check_daily_limit_def or_zero_aggregate running_daily_total_def
      counted_today_fun category_types_def Let_def)

lemma check_daily_limit_withdrawals:
  "check_daily_limit objects now limits ''WITHDRAWAL'' amt =
     (running_daily_total objects (TransactionLimit.user limits) Withdrawals (date now) + amt
        \<le> daily_withdrawal_limit limits)"
  by (simp add: check_daily_limit_def or_zero_aggregate running_daily_total_def
      counted_today_fun category_types_def Let_def)

lemma check_daily_limit_crypto:
  "ty \<in> set [''CRYPTO_BUY'', ''CRYPTO_SELL''] \<Longrightarrow>
   check_daily_limit objects now limits ty amt =
     (running_daily_total objects (TransactionLimit.user limits) Crypto (date now) + amt
        \<le> daily_crypto_limit limits)"
  by (auto simp add: check_daily_limit_def or_zero_aggregate running_daily_total_def
      counted_today_fun category_types_def Let_def)

lemma check_daily_limit_category:
  assumes "ty \<in> set (category_types c)"
  shows "check_daily_limit objects now limits ty amt =
     (running_daily_total objects (TransactionLimit.user limits) c (date now) + amt
        \<le> daily_ceiling limits c)"
proof (cases c)
  case Transfers
  with assms have "ty \<in> set [''TRANSFER'', ''PAYMENT'']"
    by (simp add: category_types_def)
  then show ?thesis
    using Transfers by (simp only: check_daily_limit_transfers daily_ceiling_def category.case)
next
  case Withdrawals
  with assms have "ty = ''WITHDRAWAL''"
    by (simp add: category_types_def)
  then show ?thesis
    using Withdrawals by (simp only: check_daily_limit_withdrawals daily_ceiling_def category.case)
next
  case Crypto
  with assms have "ty \<in> set [''CRYPTO_BUY'', ''CRYPTO_SELL'']"
    by (simp add: category_types_def)
  then show ?thesis
    using Crypto by (simp only: check_daily_limit_crypto daily_ceiling_def category.case)
qed

subsection \<open>Types outside the limited categories\<close>

text \<open>
  C9. For a transaction type other than TRANSFER, PAYMENT, WITHDRAWAL, CRYPTO_BUY and
  CRYPTO_SELL (DEPOSIT, GIFTCARD_BUY, REFUND, CHARGE, ...), \<^verbatim>\<open>check_daily_limit\<close> returns
  \<^verbatim>\<open>True\<close> for every amount, whatever the table and the limits hold: no daily ceiling
  applies to these types.
\<close>

theorem check_daily_limit_unlimited_types:
  assumes "ty \<notin> set [''TRANSFER'', ''PAYMENT'', ''WITHDRAWAL'', ''CRYPTO_BUY'', ''CRYPTO_SELL'']"
  shows "check_daily_limit objects now limits ty amt"
  using assms by (simp add: check_daily_limit_def Let_def)

theorem check_daily_limit_unlimited_types_witness:
  "''DEPOSIT'' \<notin> set [''TRANSFER'', ''PAYMENT'', ''WITHDRAWAL'', ''CRYPTO_BUY'', ''CRYPTO_SELL''] \<and>
   check_daily_limit [] \<lparr>date = 19000, timestamp_ms = 1641600000000\<rparr>
     (default_limits 1) ''DEPOSIT'' 1000000000000"
proof -
  have h: "''DEPOSIT'' \<notin> set [''TRANSFER'', ''PAYMENT'', ''WITHDRAWAL'', ''CRYPTO_BUY'', ''CRYPTO_SELL'']"
    by simp
  show ?thesis
    using h check_daily_limit_unlimited_types [OF h] by simp
qed

lemma example_running_total:
  "running_daily_total example_objects 1 Transfers 19000 = 80000"
  by (simp add: running_daily_total_def counted_today_fun category_types_def
      example_objects_def example_txn_def example_account_def
      source_account__user_def created_at__date_def)

subsection \<open>The daily limit check\<close>

text \<open>
  C2. For a transaction type of one of the category sets {TRANSFER, PAYMENT}, {WITHDRAWAL},
  {CRYPTO_BUY, CRYPTO_SELL}, \<^verbatim>\<open>check_daily_limit\<close> accepts the amount if and only if the sum
  of the amounts of the user's transactions of the same category set that are COMPLETED and
  were created today, plus the amount, does not exceed the daily ceiling of the category.
  In particular, with a daily transfer limit of 100,000 and completed transfers of 80,000
  today, a transfer of 25,000 is rejected and one of 15,000 is accepted.
\<close>

theorem check_daily_limit_daily_sum:
  "(ty \<in> set (category_types c) \<longrightarrow>
      check_daily_limit objects now limits ty amt =
        (running_daily_total objects (TransactionLimit.user limits) c (date now) + amt
           \<le> daily_ceiling limits c)) \<and>
   (daily_transfer_limit limits = 100000 \<and>
    running_daily_total objects (TransactionLimit.user limits) Transfers (date now) = 80000 \<longrightarrow>
      \<not> check_daily_limit objects now limits ''TRANSFER'' 25000 \<and>
      check_daily_limit objects now limits ''TRANSFER'' 15000)"
proof (intro conjI impI)
  assume "ty \<in> set (category_types c)"
  then show "check_daily_limit objects now limits ty amt =
        (running_daily_total objects (TransactionLimit.user limits) c (date now) + amt
           \<le> daily_ceiling limits c)"
    by (rule check_daily_limit_category)
next
  assume h: "daily_transfer_limit limits = 100000 \<and>
    running_daily_total objects (TransactionLimit.user limits) Transfers (date now) = 80000"
  have t: "''TRANSFER'' \<in> set [''TRANSFER'', ''PAYMENT'']" by simp
  from h show "\<not> check_daily_limit objects now limits ''TRANSFER'' 25000"
    by (simp add: check_daily_limit_transfers [OF t])
  from h show "check_daily_limit objects now limits ''TRANSFER'' 15000"
    by (simp add: check_daily_limit_transfers [OF t])
qed

theorem check_daily_limit_daily_sum_witness:
  "''TRANSFER'' \<in> set (category_types Transfers) \<and>
   daily_transfer_limit (default_limits 1) = 100000 \<and>
   running_daily_total example_objects (TransactionLimit.user (default_limits 1)) Transfers
     (date example_now) = 80000 \<and>
   check_daily_limit example_objects example_now (default_limits 1) ''TRANSFER'' 20000 \<and>
   \<not> check_daily_limit example_objects example_now (default_limits 1) ''TRANSFER'' 25000 \<and>
   check_daily_limit example_objects example_now (default_limits 1) ''TRANSFER'' 15000"
proof -
  have h1: "''TRANSFER'' \<in> set (category_types Transfers)"
    by (simp add: category_types_def)
  have h2: "daily_transfer_limit (default_limits 1) = 100000"
    by (simp add: default_limits_def)
  have h3: "running_daily_total example_objects (TransactionLimit.user (default_limits 1))
     Transfers (date example_now) = 80000"
    using example_running_total by (simp add: default_limits_def example_now_def)
  show ?thesis
    using h1 h2 h3
      check_daily_limit_daily_sum [of "''TRANSFER''" Transfers example_objects example_now
        "default_limits 1" 20000]
    by (simp add: daily_ceiling_def)
qed

subsection \<open>Which ceilings the check enforces\<close>

text \<open>
  C3, as the specification states it, fails: \<^verbatim>\<open>check_daily_limit\<close> accepts a first transfer
  of 60,000 under the default limits, although the single transfer ceiling is 50,000.
\<close>

theorem check_daily_limit_single_ceiling_counterexample:
  "check_daily_limit [] example_now (default_limits 1) ''TRANSFER'' 60000 \<and>
   single_transfer_limit (default_limits 1) < 60000"
  by (simp add: check_daily_limit_def default_limits_def or_zero_def
      aggregate_Sum_amount_def Let_def)

text \<open>
  C3, amended. \<^verbatim>\<open>check_daily_limit\<close> returns failure whenever the running total of the day
  plus the amount exceeds the daily ceiling of the category; the single-transaction and
  monthly ceilings are fields of \<^verbatim>\<open>TransactionLimit\<close> that the check never reads, so its
  answer does not depend on them.
\<close>

theorem check_daily_limit_daily_ceiling_only:
  "(ty \<in> set (category_types c) \<and>
    daily_ceiling limits c
      < running_daily_total objects (TransactionLimit.user limits) c (date now) + amt \<longrightarrow>
      \<not> check_daily_limit objects now limits ty amt) \<and>
   check_daily_limit objects now
     (limits\<lparr> single_transfer_limit := s1, single_withdrawal_limit := s2,
              single_crypto_limit := s3, monthly_transfer_limit := m1,
              monthly_withdrawal_limit := m2 \<rparr>) ty amt
     = check_daily_limit objects now limits ty amt"
proof (intro conjI impI)
  assume h: "ty \<in> set (category_types c) \<and>
    daily_ceiling limits c
      < running_daily_total objects (TransactionLimit.user limits) c (date now) + amt"
  then have m: "ty \<in> set (category_types c)"
    by (rule conjunct1)
  from h have "\<not> running_daily_total objects (TransactionLimit.user limits) c (date now) + amt
           \<le> daily_ceiling limits c"
    by (simp add: not_le)
  then show "\<not> check_daily_limit objects now limits ty amt"
    by (simp add: check_daily_limit_category [OF m])
next
  show "check_daily_limit objects now
     (limits\<lparr> single_transfer_limit := s1, single_withdrawal_limit := s2,
              single_crypto_limit := s3, monthly_transfer_limit := m1,
              monthly_withdrawal_limit := m2 \<rparr>) ty amt
     = check_daily_limit objects now limits ty amt"
    by (simp add: check_daily_limit_def)
qed

theorem check_daily_limit_daily_ceiling_only_witness:
  "''PAYMENT'' \<in> set (category_types Transfers) \<and>
   daily_ceiling (default_limits 1) Transfers
     < running_daily_total example_objects (TransactionLimit.user (default_limits 1))
         Transfers (date example_now) + 20001 \<and>
   \<not> check_daily_limit example_objects example_now (default_limits 1) ''PAYMENT'' 20001"
proof -
  have h1: "''PAYMENT'' \<in> set (category_types Transfers)"
    by (simp add: category_types_def)
  have h2: "daily_ceiling (default_limits 1) Transfers
     < running_daily_total example_objects (TransactionLimit.user (default_limits 1))
         Transfers (date example_now) + 20001"
    using example_running_total
    by (simp add: default_limits_def example_now_def daily_ceiling_def)
  show ?thesis
    using h1 h2
      check_daily_limit_daily_ceiling_only [of "''PAYMENT''" Transfers "default_limits 1"
        example_objects example_now 20001]
    by blast
qed

subsection \<open>Helper lemmas on the retry loops\<close>




lemma loop_none: "generate_reference_loop g refs m None i = Some (Inl TypeError)"
  by (subst generate_reference_loop.simps)
     (simp add: reference_timestamp_def subscript_int_def)






subsection \<open>The format of a reference and the retry on collision\<close>






subsection \<open>A transaction without \<^verbatim>\<open>created_at\<close>\<close>

text \<open>
  C10. The claim is that \<^verbatim>\<open>generate_reference\<close> returns a reference also when \<^verbatim>\<open>created_at\<close>
  is not set yet, with a timestamp component taken from a UUID. The source writes that
  branch as \<^verbatim>\<open>str(int(uuid.uuid4().int)[:10])\<close>, which subscripts an \<^verbatim>\<open>int\<close>: the method raises
  \<^verbatim>\<open>TypeError\<close> in its first iteration, for every model, table and generator.
\<close>

theorem generate_reference_without_created_at:
  "generate_reference g refs m None = Some (Inl TypeError)"
  by (simp add: generate_reference_def loop_none)

lemma Transaction_save_new_raises:
  "reference t = [] \<Longrightarrow> created_at t = None \<Longrightarrow> Transaction_save g refs t = Some (Inl TypeError)"
  by (simp add: Transaction_save_def generate_reference_def loop_none)

subsection \<open>The total amount of a saved transaction\<close>

lemma Transaction_save_with_reference:
  "reference t \<noteq> [] \<Longrightarrow>
   Transaction_save g refs t = Some (Inr (t\<lparr> total_amount := amount t + fee t + tax t \<rparr>))"
  by (simp add: Transaction_save_def)

lemma Transaction_save_fields:
  assumes "Transaction_save g refs t = Some (Inr t')"
  shows "total_amount t' = amount t + fee t + tax t \<and>
         amount t' = amount t \<and> fee t' = fee t \<and> tax t' = tax t"
  using assms
  by (auto simp add: Transaction_save_def split: if_splits option.splits sum.splits)

lemma Transaction_save_ignores_total:
  "Transaction_save g refs (t\<lparr> total_amount := x \<rparr>) = Transaction_save g refs t"
  by (simp add: Transaction_save_def split: option.splits sum.splits)

text \<open>
  C4. Whenever \<^verbatim>\<open>Transaction.save\<close> hands a transaction to the database, its
  \<^verbatim>\<open>total_amount\<close> is \<^verbatim>\<open>amount + fee + tax\<close>, computed in \<^verbatim>\<open>save\<close> from the three fields, which
  it leaves as they are; the value that \<^verbatim>\<open>total_amount\<close> held before does not matter. A
  transaction that has a reference is always saved. In particular a transaction with
  amount 1000, fee 50 and tax 20 is saved with \<^verbatim>\<open>total_amount\<close> 1070.
\<close>

theorem Transaction_save_total_amount:
  "(reference t \<noteq> [] \<longrightarrow> (\<exists>t'. Transaction_save g refs t = Some (Inr t'))) \<and>
   (Transaction_save g refs t = Some (Inr t') \<longrightarrow>
      total_amount t' = amount t + fee t + tax t \<and>
      amount t' = amount t \<and> fee t' = fee t \<and> tax t' = tax t \<and>
      Transaction_save g refs (t\<lparr> total_amount := x \<rparr>) = Some (Inr t')) \<and>
   (amount t = 1000 \<and> fee t = 50 \<and> tax t = 20 \<and> Transaction_save g refs t = Some (Inr t') \<longrightarrow>
      total_amount t' = 1070)"
proof (intro conjI impI)
  assume "reference t \<noteq> []"
  then show "\<exists>t'. Transaction_save g refs t = Some (Inr t')"
    by (simp add: Transaction_save_with_reference)
next
  assume s: "Transaction_save g refs t = Some (Inr t')"
  note f = Transaction_save_fields [OF s]
  from f show "total_amount t' = amount t + fee t + tax t" by simp
  from f show "amount t' = amount t" by simp
  from f show "fee t' = fee t" by simp
  from f show "tax t' = tax t" by simp
  show "Transaction_save g refs (t\<lparr> total_amount := x \<rparr>) = Some (Inr t')"
    using s by (simp only: Transaction_save_ignores_total)
next
  assume h: "amount t = 1000 \<and> fee t = 50 \<and> tax t = 20 \<and> Transaction_save g refs t = Some (Inr t')"
  then have "Transaction_save g refs t = Some (Inr t')" by simp
  from Transaction_save_fields [OF this] h show "total_amount t' = 1070" by simp
qed

lemma example_transfer_saved:
  "Transaction_save example_rng example_refs example_transfer
     = Some (Inr (example_transfer\<lparr> total_amount := 1070 \<rparr>))"
  by (simp add: Transaction_save_def example_transfer_def)

theorem Transaction_save_total_amount_witness:
  "reference example_transfer \<noteq> [] \<and>
   amount example_transfer = 1000 \<and> fee example_transfer = 50 \<and> tax example_transfer = 20 \<and>
   total_amount example_transfer = 9999 \<and>
   Transaction_save example_rng example_refs example_transfer
     = Some (Inr (example_transfer\<lparr> total_amount := 1070 \<rparr>)) \<and>
   total_amount (example_transfer\<lparr> total_amount := 1070 \<rparr>) = 1070 \<and>
   Transaction_save example_rng example_refs (example_transfer\<lparr> total_amount := 5 \<rparr>)
     = Some (Inr (example_transfer\<lparr> total_amount := 1070 \<rparr>))"
proof -
  have h1: "reference example_transfer \<noteq> []"
    by (simp add: example_transfer_def)
  have h2: "amount example_transfer = 1000 \<and> fee example_transfer = 50 \<and> tax example_transfer = 20"
    by (simp add: example_transfer_def)
  have h3: "total_amount example_transfer = 9999"
    by (simp add: example_transfer_def)
  have h4: "Transaction_save example_rng example_refs example_transfer
     = Some (Inr (example_transfer\<lparr> total_amount := 1070 \<rparr>))"
    by (rule example_transfer_saved)
  note T = Transaction_save_total_amount [of example_transfer example_rng example_refs
      "example_transfer\<lparr> total_amount := 1070 \<rparr>" 5]
  from T h4 have h5: "Transaction_save example_rng example_refs (example_transfer\<lparr> total_amount := 5 \<rparr>)
     = Some (Inr (example_transfer\<lparr> total_amount := 1070 \<rparr>))"
    by simp
  from T h2 h4 have h6: "total_amount (example_transfer\<lparr> total_amount := 1070 \<rparr>) = 1070"
    by simp
  from h1 h2 h3 h4 h5 h6 show ?thesis
    by simp
qed

subsection \<open>The balances of a bank account\<close>

text \<open>
  C1, as the specification states it, fails on the source: \<^verbatim>\<open>BankAccount.save\<close> stores an
  account whose balance is 100 while its available and frozen balances are 0, as it is.
\<close>

theorem BankAccount_save_unchecked_counterexample:
  "BankAccount_save example_rng [] example_unbalanced_account = Some example_unbalanced_account \<and>
   \<not> ledger_invariant example_unbalanced_account"
  by (simp add: BankAccount_save_def example_unbalanced_account_def ledger_invariant_def)

lemma BankAccount_save_result:
  assumes "BankAccount_save g numbers a = Some a'"
  shows "balance a' = balance a \<and> available_balance a' = available_balance a \<and>
         frozen_balance a' = frozen_balance a"
  using assms
  by (auto simp add: BankAccount_save_def split: if_splits option.splits)

text \<open>
  C1, amended. An account created with the defaults of the fields satisfies
  \<^verbatim>\<open>balance == available_balance + frozen_balance\<close> and \<^verbatim>\<open>available_balance >= 0\<close>, and
  \<^verbatim>\<open>BankAccount.save\<close>, the one method of the source that writes an account, never changes
  the three balances: the invariant holds after it exactly when it held before. An account
  that has a number is saved as it is.
\<close>

theorem BankAccount_save_preserves_balances:
  "ledger_invariant (new_account u) \<and>
   (BankAccount_save g numbers a = Some a' \<longrightarrow>
      balance a' = balance a \<and> available_balance a' = available_balance a \<and>
      frozen_balance a' = frozen_balance a \<and>
      (ledger_invariant a' \<longleftrightarrow> ledger_invariant a)) \<and>
   (account_number a \<noteq> [] \<longrightarrow> BankAccount_save g numbers a = Some a)"
proof (intro conjI impI)
  show "ledger_invariant (new_account u)"
    by (simp add: ledger_invariant_def new_account_def)
next
  assume s: "BankAccount_save g numbers a = Some a'"
  note f = BankAccount_save_result [OF s]
  from f show "balance a' = balance a" by simp
  from f show "available_balance a' = available_balance a" by simp
  from f show "frozen_balance a' = frozen_balance a" by simp
  from f show "ledger_invariant a' \<longleftrightarrow> ledger_invariant a"
    by (simp add: ledger_invariant_def)
next
  assume "account_number a \<noteq> []"
  then show "BankAccount_save g numbers a = Some a"
    by (simp add: BankAccount_save_def)
qed

lemma example_account_number:
  "generate_account_number example_rng [] = Some ''2091234567890''"
  unfolding generate_account_number_def
  by (subst generate_account_number_loop.simps)
     (simp add: example_rng_def random_randint_def str_int_def str_nat.simps Let_def)

lemma example_new_account_saved:
  "BankAccount_save example_rng [] (new_account 1)
     = Some ((new_account 1)\<lparr> account_number := ''2091234567890'' \<rparr>)"
  by (simp add: BankAccount_save_def example_account_number) (simp add: new_account_def)

theorem BankAccount_save_preserves_balances_witness:
  "BankAccount_save example_rng [] (new_account 1)
     = Some ((new_account 1)\<lparr> account_number := ''2091234567890'' \<rparr>) \<and>
   ledger_invariant ((new_account 1)\<lparr> account_number := ''2091234567890'' \<rparr>) \<and>
   account_number (example_account 1) \<noteq> [] \<and>
   BankAccount_save example_rng [] (example_account 1) = Some (example_account 1)"
proof -
  have h1: "BankAccount_save example_rng [] (new_account 1)
     = Some ((new_account 1)\<lparr> account_number := ''2091234567890'' \<rparr>)"
    by (rule example_new_account_saved)
  have h2: "account_number (example_account 1) \<noteq> []"
    by (simp add: example_account_def)
  note T1 = BankAccount_save_preserves_balances [of 1 example_rng "[]" "new_account 1"
      "(new_account 1)\<lparr> account_number := ''2091234567890'' \<rparr>"]
  note T2 = BankAccount_save_preserves_balances [of 1 example_rng "[]" "example_account 1"
      "example_account 1"]
  from T1 h1 have c1: "ledger_invariant ((new_account 1)\<lparr> account_number := ''2091234567890'' \<rparr>)"
    by simp
  from T2 h2 have c2: "BankAccount_save example_rng [] (example_account 1) = Some (example_account 1)"
    by simp
  from h1 h2 c1 c2 show ?thesis by simp
qed

subsection \<open>Reserving and releasing funds\<close>

lemma can_withdraw_iff:
  "can_withdraw a amt \<longleftrightarrow>
     BankAccount.status a = ''ACTIVE'' \<and> amt \<le> available_balance a \<and>
     amt \<le> single_transaction_limit a"
  by (simp add: can_withdraw_def is_active_def)

lemma reserve_succeeds_iff: "(\<exists>r. reserve a amt = Inr r) \<longleftrightarrow> can_withdraw a amt"
  by (simp add: reserve_def)

lemma reserve_result:
  "reserve a amt = Inr (a', h) \<Longrightarrow>
   a' = a\<lparr> available_balance := available_balance a - amt,
            frozen_balance := frozen_balance a + amt \<rparr> \<and> held h = amt"
  by (auto simp add: reserve_def split: if_splits)

text \<open>
  C6. The eligibility check of a reservation, \<^verbatim>\<open>can_withdraw\<close>, succeeds if and only if the
  status of the account is ACTIVE, the amount is at most \<^verbatim>\<open>available_balance\<close> and the amount
  is at most \<^verbatim>\<open>single_transaction_limit\<close>; \<^verbatim>\<open>reserve\<close> succeeds exactly when the check does,
  and then it has moved the amount from \<^verbatim>\<open>available_balance\<close> into \<^verbatim>\<open>frozen_balance\<close> in its
  one step, with \<^verbatim>\<open>balance\<close> as it was.
\<close>

theorem reserve_checks_and_moves:
  "(can_withdraw a amt \<longleftrightarrow>
      BankAccount.status a = ''ACTIVE'' \<and> amt \<le> available_balance a \<and>
      amt \<le> single_transaction_limit a) \<and>
   ((\<exists>r. reserve a amt = Inr r) \<longleftrightarrow> can_withdraw a amt) \<and>
   (reserve a amt = Inr (a', h) \<longrightarrow>
      available_balance a' = available_balance a - amt \<and>
      frozen_balance a' = frozen_balance a + amt \<and>
      balance a' = balance a \<and> held h = amt)"
proof (intro conjI impI)
  show "can_withdraw a amt \<longleftrightarrow>
      BankAccount.status a = ''ACTIVE'' \<and> amt \<le> available_balance a \<and>
      amt \<le> single_transaction_limit a"
    by (rule can_withdraw_iff)
  show "(\<exists>r. reserve a amt = Inr r) \<longleftrightarrow> can_withdraw a amt"
    by (rule reserve_succeeds_iff)
next
  assume "reserve a amt = Inr (a', h)"
  note r = reserve_result [OF this]
  from r show "available_balance a' = available_balance a - amt" by simp
  from r show "frozen_balance a' = frozen_balance a + amt" by simp
  from r show "balance a' = balance a" by simp
  from r show "held h = amt" by simp
qed

lemma example_reserve:
  "reserve (example_account 1) 60000
     = Inr ((example_account 1)\<lparr> available_balance := 440000, frozen_balance := 60000 \<rparr>,
            \<lparr> held = 60000 \<rparr>)"
  by (simp add: reserve_def can_withdraw_def is_active_def example_account_def)

theorem reserve_checks_and_moves_witness:
  "reserve (example_account 1) 60000
     = Inr ((example_account 1)\<lparr> available_balance := 440000, frozen_balance := 60000 \<rparr>,
            \<lparr> held = 60000 \<rparr>) \<and>
   can_withdraw (example_account 1) 60000 \<and>
   \<not> can_withdraw (example_account 1) 100001 \<and>
   (\<forall>r. reserve (example_account 1) 100001 \<noteq> Inr r) \<and>
   balance ((example_account 1)\<lparr> available_balance := 440000, frozen_balance := 60000 \<rparr>)
     = balance (example_account 1)"
proof -
  note T = reserve_checks_and_moves [of "example_account 1" 60000
      "(example_account 1)\<lparr> available_balance := 440000, frozen_balance := 60000 \<rparr>"
      "\<lparr> held = 60000 \<rparr>"]
  note U = reserve_checks_and_moves [of "example_account 1" 100001]
  have h: "reserve (example_account 1) 60000
     = Inr ((example_account 1)\<lparr> available_balance := 440000, frozen_balance := 60000 \<rparr>,
            \<lparr> held = 60000 \<rparr>)"
    by (rule example_reserve)
  from T h have c1: "can_withdraw (example_account 1) 60000"
    by blast
  have n: "\<not> (100001 \<le> single_transaction_limit (example_account 1))"
    by (simp add: example_account_def)
  from U n have c2: "\<not> can_withdraw (example_account 1) 100001"
    by blast
  from U c2 have c3: "\<forall>r. reserve (example_account 1) 100001 \<noteq> Inr r"
    by blast
  from T h have c4: "balance ((example_account 1)\<lparr> available_balance := 440000, frozen_balance := 60000 \<rparr>)
     = balance (example_account 1)"
    by blast
  from h c1 c2 c3 c4 show ?thesis by blast
qed

text \<open>
  C8. For every account and amount, reserving the amount and then releasing the hold
  restores \<^verbatim>\<open>available_balance\<close> to its value before the reservation; the release leaves
  \<^verbatim>\<open>balance\<close> untouched, and the account after the two steps is the account before them.
\<close>

theorem reserve_release_round_trip:
  "reserve a amt = Inr (a', h) \<longrightarrow>
     available_balance (release a' h) = available_balance a \<and>
     balance (release a' h) = balance a' \<and>
     balance (release a' h) = balance a \<and>
     release a' h = a"
proof
  assume "reserve a amt = Inr (a', h)"
  note r = reserve_result [OF this]
  then have e: "release a' h = a"
    by (simp add: release_def)
  from r have b: "balance a' = balance a" by simp
  from e b show "available_balance (release a' h) = available_balance a \<and>
     balance (release a' h) = balance a' \<and>
     balance (release a' h) = balance a \<and>
     release a' h = a"
    by simp
qed

theorem reserve_release_round_trip_witness:
  "reserve (example_account 1) 60000
     = Inr ((example_account 1)\<lparr> available_balance := 440000, frozen_balance := 60000 \<rparr>,
            \<lparr> held = 60000 \<rparr>) \<and>
   release ((example_account 1)\<lparr> available_balance := 440000, frozen_balance := 60000 \<rparr>)
     \<lparr> held = 60000 \<rparr> = example_account 1 \<and>
   available_balance (release
     ((example_account 1)\<lparr> available_balance := 440000, frozen_balance := 60000 \<rparr>)
     \<lparr> held = 60000 \<rparr>) = 500000"
proof -
  have h: "reserve (example_account 1) 60000
     = Inr ((example_account 1)\<lparr> available_balance := 440000, frozen_balance := 60000 \<rparr>,
            \<lparr> held = 60000 \<rparr>)"
    by (rule example_reserve)
  from reserve_release_round_trip [THEN mp, OF h]
  have e: "release ((example_account 1)\<lparr> available_balance := 440000, frozen_balance := 60000 \<rparr>)
     \<lparr> held = 60000 \<rparr> = example_account 1"
    by (elim conjE)
  have "available_balance (example_account 1) = 500000"
    by (simp add: example_account_def)
  with h e show ?thesis by simp
qed

subsection \<open>The lifecycle of a transaction\<close>

lemma complete_ok_iff:
  "(\<exists>s'. complete_txn now s = (None, s')) \<longleftrightarrow> Transaction.status (txn s) = ''PROCESSING''"
  by (simp add: complete_txn_def Let_def)

lemma cancel_ok_iff:
  "(\<exists>s'. cancel s = (None, s')) \<longleftrightarrow>
     Transaction.status (txn s) = ''PENDING'' \<or> Transaction.status (txn s) = ''PROCESSING''"
  by (simp add: cancel_def can_be_cancelled_def Let_def)

lemma reverse_ok_iff:
  "(\<exists>s'. reverse s = (None, s')) \<longleftrightarrow> Transaction.status (txn s) = ''COMPLETED''"
  by (simp add: reverse_def can_be_reversed_def Let_def)

lemma complete_illegal:
  "Transaction.status (txn s) \<noteq> ''PROCESSING'' \<Longrightarrow>
   complete_txn now s = (Some InvalidStateTransition, s)"
  by (simp add: complete_txn_def Let_def)

lemma cancel_illegal:
  "Transaction.status (txn s) \<noteq> ''PENDING'' \<Longrightarrow> Transaction.status (txn s) \<noteq> ''PROCESSING'' \<Longrightarrow>
   cancel s = (Some InvalidStateTransition, s)"
  by (simp add: cancel_def can_be_cancelled_def Let_def)

lemma reverse_illegal:
  "Transaction.status (txn s) \<noteq> ''COMPLETED'' \<Longrightarrow>
   reverse s = (Some InvalidStateTransition, s)"
  by (simp add: reverse_def can_be_reversed_def Let_def)

text \<open>
  C5. Each lifecycle operation is permitted only from its legal predecessor states:
  \<^verbatim>\<open>complete\<close> succeeds only from PROCESSING, \<^verbatim>\<open>cancel\<close> only from PENDING or PROCESSING and
  \<^verbatim>\<open>reverse\<close> only from COMPLETED. From any other status (\<^verbatim>\<open>complete\<close> on a PENDING or a
  FAILED transaction, say) the operation returns \<^verbatim>\<open>InvalidStateTransition\<close> and the state
  after it, that is the status of the transaction, the balances of its accounts and the
  log, is the state before it.
\<close>

theorem lifecycle_legal_predecessors:
  "((\<exists>s'. complete_txn now s = (None, s')) \<longleftrightarrow> Transaction.status (txn s) = ''PROCESSING'') \<and>
   ((\<exists>s'. cancel s = (None, s')) \<longleftrightarrow>
      Transaction.status (txn s) = ''PENDING'' \<or> Transaction.status (txn s) = ''PROCESSING'') \<and>
   ((\<exists>s'. reverse s = (None, s')) \<longleftrightarrow> Transaction.status (txn s) = ''COMPLETED'') \<and>
   (Transaction.status (txn s) \<noteq> ''PROCESSING'' \<longrightarrow>
      complete_txn now s = (Some InvalidStateTransition, s)) \<and>
   (Transaction.status (txn s) \<noteq> ''PENDING'' \<and> Transaction.status (txn s) \<noteq> ''PROCESSING'' \<longrightarrow>
      cancel s = (Some InvalidStateTransition, s)) \<and>
   (Transaction.status (txn s) \<noteq> ''COMPLETED'' \<longrightarrow>
      reverse s = (Some InvalidStateTransition, s))"
proof (intro conjI impI)
  show "(\<exists>s'. complete_txn now s = (None, s')) \<longleftrightarrow> Transaction.status (txn s) = ''PROCESSING''"
    by (rule complete_ok_iff)
  show "(\<exists>s'. cancel s = (None, s')) \<longleftrightarrow>
      Transaction.status (txn s) = ''PENDING'' \<or> Transaction.status (txn s) = ''PROCESSING''"
    by (rule cancel_ok_iff)
  show "(\<exists>s'. reverse s = (None, s')) \<longleftrightarrow> Transaction.status (txn s) = ''COMPLETED''"
    by (rule reverse_ok_iff)
next
  assume "Transaction.status (txn s) \<noteq> ''PROCESSING''"
  then show "complete_txn now s = (Some InvalidStateTransition, s)"
    by (rule complete_illegal)
next
  assume "Transaction.status (txn s) \<noteq> ''PENDING'' \<and> Transaction.status (txn s) \<noteq> ''PROCESSING''"
  then show "cancel s = (Some InvalidStateTransition, s)"
    by (intro cancel_illegal) simp_all
next
  assume "Transaction.status (txn s) \<noteq> ''COMPLETED''"
  then show "reverse s = (Some InvalidStateTransition, s)"
    by (rule reverse_illegal)
qed

lemma example_engine_status: "Transaction.status (txn (example_engine st)) = st"
  by (simp add: example_engine_def)

theorem lifecycle_legal_predecessors_witness:
  "complete_txn example_now (example_engine ''PENDING'')
     = (Some InvalidStateTransition, example_engine ''PENDING'') \<and>
   complete_txn example_now (example_engine ''FAILED'')
     = (Some InvalidStateTransition, example_engine ''FAILED'') \<and>
   cancel (example_engine ''COMPLETED'')
     = (Some InvalidStateTransition, example_engine ''COMPLETED'') \<and>
   reverse (example_engine ''PROCESSING'')
     = (Some InvalidStateTransition, example_engine ''PROCESSING'') \<and>
   (\<exists>s'. complete_txn example_now (example_engine ''PROCESSING'') = (None, s')) \<and>
   (\<exists>s'. cancel (example_engine ''PENDING'') = (None, s')) \<and>
   (\<exists>s'. reverse (example_engine ''COMPLETED'') = (None, s'))"
proof -
  have p: "Transaction.status (txn (example_engine ''PENDING'')) \<noteq> ''PROCESSING''"
    by (simp add: example_engine_status)
  have f: "Transaction.status (txn (example_engine ''FAILED'')) \<noteq> ''PROCESSING''"
    by (simp add: example_engine_status)
  have c: "Transaction.status (txn (example_engine ''COMPLETED'')) \<noteq> ''PENDING'' \<and>
           Transaction.status (txn (example_engine ''COMPLETED'')) \<noteq> ''PROCESSING''"
    by (simp add: example_engine_status)
  have r: "Transaction.status (txn (example_engine ''PROCESSING'')) \<noteq> ''COMPLETED''"
    by (simp add: example_engine_status)
  note P = lifecycle_legal_predecessors [of example_now "example_engine ''PENDING''"]
  note F = lifecycle_legal_predecessors [of example_now "example_engine ''FAILED''"]
  note C = lifecycle_legal_predecessors [of example_now "example_engine ''COMPLETED''"]
  note R = lifecycle_legal_predecessors [of example_now "example_engine ''PROCESSING''"]
  from P p have c1: "complete_txn example_now (example_engine ''PENDING'')
     = (Some InvalidStateTransition, example_engine ''PENDING'')"
    by simp
  from F f have c2: "complete_txn example_now (example_engine ''FAILED'')
     = (Some InvalidStateTransition, example_engine ''FAILED'')"
    by simp
  from C c have c3: "cancel (example_engine ''COMPLETED'')
     = (Some InvalidStateTransition, example_engine ''COMPLETED'')"
    by simp
  from R r have c4: "reverse (example_engine ''PROCESSING'')
     = (Some InvalidStateTransition, example_engine ''PROCESSING'')"
    by simp
  from R have c5: "\<exists>s'. complete_txn example_now (example_engine ''PROCESSING'') = (None, s')"
    by (simp add: example_engine_status)
  from P have c6: "\<exists>s'. cancel (example_engine ''PENDING'') = (None, s')"
    by (simp add: example_engine_status)
  from C have c7: "\<exists>s'. reverse (example_engine ''COMPLETED'') = (None, s')"
    by (simp add: example_engine_status)
  from c1 c2 c3 c4 c5 c6 c7 show ?thesis
    by (intro conjI)
qed

end
